theory Spec2Isabelle
  imports Complex_Main "HOL-Library.AList" "HOL-Library.Char_ord" "HOL-Library.List_Lexorder"
begin

section \<open>Data model of \<^verbatim>\<open>backend_app.py\<close>\<close>

text \<open>
  The module keeps two globals: \<^verbatim>\<open>students\<close>, a list of dictionaries with the keys
  \<^verbatim>\<open>id\<close>, \<^verbatim>\<open>name\<close>, \<^verbatim>\<open>photo\<close> and \<^verbatim>\<open>encoding\<close>, and \<^verbatim>\<open>attendance_log\<close>, a
  \<^verbatim>\<open>defaultdict(list)\<close> from student id to a list of dictionaries with the keys
  \<^verbatim>\<open>status\<close> and \<^verbatim>\<open>date\<close>. The only status strings the module ever stores are the
  literals \<^verbatim>\<open>"Present"\<close> and \<^verbatim>\<open>"Absent"\<close>, hence the two-constructor datatype. A face
  encoding is a vector of floats; it is modelled over the reals.
\<close>

datatype status = Present | Absent

type_synonym encoding = "real list"

record log_entry =
  status :: status
  date :: string

record student =
  student_id :: int
  name :: string
  photo :: string
  encoding :: encoding

type_synonym attendance_log = "int \<rightharpoonup> log_entry list"

record state =
  students :: "student list"
  attendance_log :: attendance_log

definition initial_state :: state where
  "initial_state = \<lparr>students = [], attendance_log = Map.empty\<rparr>"

datatype error =
    NameAndPhotoRequired
  | NoFaceDetected
  | RegistrationFailed
  | NoStudentsRegistered
  | NoFrameUploaded
  | FailedToReadImage
  | AttendanceFailed
  | StudentNotFound
  | InvalidStudent
  | ReportFailed
  | ZeroDivisionError

section \<open>Helper functions\<close>

text \<open>
  \<^verbatim>\<open>attendance_log[student_id]\<close> on a \<^verbatim>\<open>defaultdict(list)\<close>: a missing key reads as the
  empty list.
\<close>

definition entries_of :: "attendance_log \<Rightarrow> int \<Rightarrow> log_entry list" where
  "entries_of lg i = (case lg i of None \<Rightarrow> [] | Some es \<Rightarrow> es)"

text \<open>
  \<^verbatim>\<open>mark_attendance(student_id, status)\<close>. The day string
  \<^verbatim>\<open>datetime.now().strftime("%Y-%m-%d")\<close> is the parameter \<open>today\<close>. The early return
  leaves the dictionary as it is: it is only taken when the key already holds a
  non-empty list, so the defaultdict inserts nothing there.
\<close>

definition mark_attendance :: "string \<Rightarrow> int \<Rightarrow> status \<Rightarrow> attendance_log \<Rightarrow> attendance_log" where
  "mark_attendance today i st lg =
     (if st = Present \<and> list_ex (\<lambda>l. date l = today \<and> status l = Present) (entries_of lg i)
      then lg
      else lg(i \<mapsto> entries_of lg i @ [\<lparr>status = st, date = today\<rparr>]))"

text \<open>The number of events of one status on one day in a list of events.\<close>

definition events_on :: "status \<Rightarrow> string \<Rightarrow> log_entry list \<Rightarrow> nat" where
  "events_on st d es = length (filter (\<lambda>l. date l = d \<and> status l = st) es)"

text \<open>No student has two \<^verbatim>\<open>Present\<close> events on one day.\<close>

definition deduplicated :: "attendance_log \<Rightarrow> bool" where
  "deduplicated lg = (\<forall>i d. events_on Present d (entries_of lg i) \<le> 1)"

section \<open>Registration\<close>

text \<open>
  What \<^verbatim>\<open>get_face_encoding(filepath)\<close> did with the saved photo: it raised (the file
  is not an image), it returned \<^verbatim>\<open>None\<close>, or it returned the first encoding.
\<close>

datatype extraction = Raised | NoFace | Face encoding

text \<open>
  One \<^verbatim>\<open>/register\<close> request: the form field, the uploaded file's name (a Flask
  upload without a file name is falsy), the file name generated from the UUID, and the
  outcome of the extraction.
\<close>

record register_request =
  student_name :: "string option"
  student_photo :: "string option"
  filename :: string
  extracted :: extraction

definition falsy :: "string option \<Rightarrow> bool" where
  "falsy v = (v = None \<or> v = Some [])"

definition register_student :: "register_request \<Rightarrow> state \<Rightarrow> (error + int) \<times> state" where
  "register_student req s =
     (if falsy (student_name req) \<or> falsy (student_photo req) then (Inl NameAndPhotoRequired, s)
      else case extracted req of
        Raised \<Rightarrow> (Inl RegistrationFailed, s)
      | NoFace \<Rightarrow> (Inl NoFaceDetected, s)
      | Face enc \<Rightarrow>
          (let i = int (length (students s)) + 1 in
           (Inr i,
            \<lparr>students = students s @
               [\<lparr>student_id = i, name = the (student_name req), photo = filename req,
                 encoding = enc\<rparr>],
             attendance_log = (attendance_log s)(i \<mapsto> [])\<rparr>)))"

section \<open>Taking attendance\<close>

text \<open>
  \<^verbatim>\<open>face_recognition.compare_faces(known, candidate, tolerance=0.6)\<close> belongs to a
  third-party library and is not part of the repository. It returns one boolean per
  known encoding, in order; which pairs it accepts is the parameter \<open>accepts\<close>.
\<close>

definition compare_faces :: "(encoding \<Rightarrow> encoding \<Rightarrow> bool) \<Rightarrow> encoding list \<Rightarrow> encoding \<Rightarrow> bool list" where
  "compare_faces accepts known candidate = map (\<lambda>k. accepts k candidate) known"

text \<open>\<^verbatim>\<open>matches.index(True)\<close>, called only when \<^verbatim>\<open>True in matches\<close>.\<close>

fun index_true :: "bool list \<Rightarrow> nat" where
  "index_true [] = 0"
| "index_true (b # bs) = (if b then 0 else Suc (index_true bs))"

text \<open>
  The student a face is attributed to: \<^verbatim>\<open>students[matches.index(True)]\<close> when
  \<^verbatim>\<open>True in matches\<close>, nobody otherwise.
\<close>

definition match_face :: "(encoding \<Rightarrow> encoding \<Rightarrow> bool) \<Rightarrow> student list \<Rightarrow> encoding \<Rightarrow> student option" where
  "match_face accepts studs face =
     (let matches = compare_faces accepts (map encoding studs) face in
      if True \<in> set matches then Some (studs ! index_true matches) else None)"

text \<open>
  The loop state of \<^verbatim>\<open>take_attendance\<close>: \<^verbatim>\<open>present_students\<close>,
  \<^verbatim>\<open>absent_students\<close> (both lists of names) and the log.
\<close>

type_synonym run = "string list \<times> string list \<times> attendance_log"

text \<open>One iteration of \<^verbatim>\<open>for face_encoding in face_encodings\<close>.\<close>

definition attribute_face :: "(encoding \<Rightarrow> encoding \<Rightarrow> bool) \<Rightarrow> string \<Rightarrow> student list \<Rightarrow> encoding \<Rightarrow> run \<Rightarrow> run" where
  "attribute_face accepts today studs face r =
     (case r of (present, absent, lg) \<Rightarrow>
        (case match_face accepts studs face of
           None \<Rightarrow> r
         | Some st \<Rightarrow>
             if name st \<notin> set present
             then (present @ [name st],
                   (if name st \<in> set absent then remove1 (name st) absent else absent),
                   mark_attendance today (student_id st) Present lg)
             else r))"

text \<open>One iteration of the second loop, \<^verbatim>\<open>for student in students\<close>.\<close>

definition mark_absent :: "string \<Rightarrow> string list \<Rightarrow> student \<Rightarrow> attendance_log \<Rightarrow> attendance_log" where
  "mark_absent today present st lg =
     (if name st \<notin> set present then mark_attendance today (student_id st) Absent lg else lg)"

text \<open>
  What arrived with a \<^verbatim>\<open>/take_attendance\<close> request: no file, bytes that
  \<^verbatim>\<open>cv2.imdecode\<close> rejects, an exception of the image libraries, or the encodings of
  the faces found in the frame.
\<close>

datatype frame = NoFrame | Undecodable | Crashed | Faces "encoding list"

text \<open>
  \<^verbatim>\<open>take_attendance\<close>. The calls of \<^verbatim>\<open>mark_attendance\<close> of one request are taken
  to read the same day \<open>today\<close> (the request does not run across midnight). The
  image libraries are called before the two loops; \<open>Crashed\<close> is an exception raised
  there, which the handler answers with its 500 message.
\<close>

definition take_attendance :: "(encoding \<Rightarrow> encoding \<Rightarrow> bool) \<Rightarrow> string \<Rightarrow> frame \<Rightarrow> state \<Rightarrow> (error + string list \<times> string list) \<times> state" where
  "take_attendance accepts today fr s =
     (if students s = [] then (Inl NoStudentsRegistered, s)
      else case fr of
        NoFrame \<Rightarrow> (Inl NoFrameUploaded, s)
      | Undecodable \<Rightarrow> (Inl FailedToReadImage, s)
      | Crashed \<Rightarrow> (Inl AttendanceFailed, s)
      | Faces face_encodings \<Rightarrow>
          (case fold (attribute_face accepts today (students s)) face_encodings
                  ([], map name (students s), attendance_log s) of
             (present, absent, lg) \<Rightarrow>
               (Inr (present, absent),
                s\<lparr>attendance_log := fold (mark_absent today present) (students s) lg\<rparr>)))"

section \<open>Aggregation\<close>

text \<open>
  \<^verbatim>\<open>date_status\<close> is a \<^verbatim>\<open>defaultdict\<close> whose values are the dictionaries
  \<^verbatim>\<open>{"Present": 0, "Absent": 0}\<close>: an association list in insertion order, with a
  pair of counters as value.
\<close>

type_synonym counts = "nat \<times> nat"

definition counts_of :: "(string \<times> counts) list \<Rightarrow> string \<Rightarrow> counts" where
  "counts_of ds k = (case map_of ds k of None \<Rightarrow> (0, 0) | Some c \<Rightarrow> c)"

fun increment :: "status \<Rightarrow> counts \<Rightarrow> counts" where
  "increment Present (p, a) = (p + 1, a)"
| "increment Absent (p, a) = (p, a + 1)"

text \<open>\<^verbatim>\<open>date_status[key][status] += 1\<close>.\<close>

definition tally :: "string \<Rightarrow> status \<Rightarrow> (string \<times> counts) list \<Rightarrow> (string \<times> counts) list" where
  "tally key st ds = AList.update key (increment st (counts_of ds key)) ds"

text \<open>
  The two branches of \<^verbatim>\<open>get_attendance_graph\<close> differ in the key only:
  \<^verbatim>\<open>log["date"][:7]\<close> for the monthly view, \<^verbatim>\<open>log["date"]\<close> for the daily one. The
  result is the triple \<^verbatim>\<open>(labels, present_counts, absent_counts)\<close> handed to the plot.
\<close>

definition series :: "(string \<Rightarrow> string) \<Rightarrow> log_entry list \<Rightarrow> string list \<times> nat list \<times> nat list" where
  "series key history =
     (let date_status = fold (\<lambda>l ds. tally (key (date l)) (status l) ds) history [];
          labels = sort (map fst date_status)
      in (labels,
          map (\<lambda>m. fst (counts_of date_status m)) labels,
          map (\<lambda>m. snd (counts_of date_status m)) labels))"

definition month :: "string \<Rightarrow> string" where
  "month d = take 7 d"

definition monthly :: "log_entry list \<Rightarrow> string list \<times> nat list \<times> nat list" where
  "monthly history = series month history"

definition daily :: "log_entry list \<Rightarrow> string list \<times> nat list \<times> nat list" where
  "daily history = series (\<lambda>d. d) history"

datatype view = DailyView | MonthlyView

definition get_attendance_graph :: "int option \<Rightarrow> view \<Rightarrow> state \<Rightarrow> error + string list \<times> nat list \<times> nat list" where
  "get_attendance_graph sid v s =
     (case sid of
        None \<Rightarrow> Inl StudentNotFound
      | Some i \<Rightarrow>
          (case attendance_log s i of
             None \<Rightarrow> Inl StudentNotFound
           | Some history \<Rightarrow>
               Inr (if v = MonthlyView then monthly history else daily history)))"

text \<open>
  The number of events of one status in one bucket: those whose key (the date, or its
  first seven characters) is the label \<open>k\<close>.
\<close>

definition bucket_count :: "(string \<Rightarrow> string) \<Rightarrow> status \<Rightarrow> string \<Rightarrow> log_entry list \<Rightarrow> nat" where
  "bucket_count key st k history =
     length (filter (\<lambda>l. key (date l) = k \<and> status l = st) history)"

section \<open>The report\<close>

text \<open>Python's \<^verbatim>\<open>a / b\<close> on integers: true division, \<^verbatim>\<open>ZeroDivisionError\<close> on 0.\<close>

definition truediv :: "nat \<Rightarrow> nat \<Rightarrow> error + real" where
  "truediv a b = (if b = 0 then Inl ZeroDivisionError else Inr (real a / real b))"

text \<open>
  The three figures of \<^verbatim>\<open>send_report\<close>:
  \<^verbatim>\<open>sum(1 for log in logs if log["status"] == "Present")\<close>, the same for
  \<^verbatim>\<open>"Absent"\<close>, and \<^verbatim>\<open>(total_present / max(len(logs), 1)) * 100\<close>.
\<close>

definition summary :: "log_entry list \<Rightarrow> error + nat \<times> nat \<times> real" where
  "summary logs =
     (let total_present = sum_list (map (\<lambda>l. 1) (filter (\<lambda>l. status l = Present) logs));
          total_absent = sum_list (map (\<lambda>l. 1) (filter (\<lambda>l. status l = Absent) logs))
      in case truediv total_present (max (length logs) 1) of
           Inl e \<Rightarrow> Inl e
         | Inr q \<Rightarrow> Inr (total_present, total_absent, q * 100))"



section \<open>Runs of the service\<close>

text \<open>
  The requests that change the two globals, and the state after a sequence of them,
  started from the empty module state.
\<close>

datatype request =
    Register register_request
  | TakeAttendance "encoding \<Rightarrow> encoding \<Rightarrow> bool" string frame

fun handle :: "request \<Rightarrow> state \<Rightarrow> state" where
  "handle (Register req) s = snd (register_student req s)"
| "handle (TakeAttendance accepts today fr) s = snd (take_attendance accepts today fr s)"

definition serve :: "request list \<Rightarrow> state" where
  "serve reqs = fold handle reqs initial_state"


section \<open>Concrete matchers and states\<close>

text \<open>
  Modelled from the spec: the distance behind \<^verbatim>\<open>compare_faces\<close>, which the source
  leaves to the library, is the Euclidean norm of the difference of two encodings. Both
  ways of comparing it with a tolerance are given; they are used for sample runs only.
\<close>

definition face_distance :: "encoding \<Rightarrow> encoding \<Rightarrow> real" where
  "face_distance k f = sqrt (sum_list (map (\<lambda>(a, b). (a - b)\<^sup>2) (zip k f)))"

definition closer_than :: "real \<Rightarrow> encoding \<Rightarrow> encoding \<Rightarrow> bool" where
  "closer_than tolerance k f = (face_distance k f < tolerance)"

definition no_farther_than :: "real \<Rightarrow> encoding \<Rightarrow> encoding \<Rightarrow> bool" where
  "no_farther_than tolerance k f = (face_distance k f \<le> tolerance)"

text \<open>A successful registration of \<open>n\<close> with the encoding \<open>e\<close>.\<close>

definition enrol :: "string \<Rightarrow> string \<Rightarrow> encoding \<Rightarrow> request" where
  "enrol n file e =
     Register \<lparr>student_name = Some n, student_photo = Some ''upload.jpg'', filename = file,
       extracted = Face e\<rparr>"

text \<open>Two students with different names, and two students who share a name.\<close>

definition classroom :: state where
  "classroom = serve [enrol ''Alice'' ''a.jpg'' [1/2], enrol ''Bob'' ''b.jpg'' [1/4]]"

definition namesakes :: state where
  "namesakes = serve [enrol ''Alice'' ''a.jpg'' [1/2], enrol ''Alice'' ''c.jpg'' [10]]"

section \<open>The ledger\<close>

lemma entries_of_mark:
  "entries_of (mark_attendance d i st lg) j =
     (if j = i \<and> \<not> (st = Present \<and> list_ex (\<lambda>l. date l = d \<and> status l = Present) (entries_of lg i))
      then entries_of lg i @ [\<lparr>status = st, date = d\<rparr>] else entries_of lg j)"
  by (simp add: mark_attendance_def entries_of_def)

lemma events_on_append: "events_on st d (xs @ ys) = events_on st d xs + events_on st d ys"
  by (simp add: events_on_def)

lemma events_on_single:
  "events_on st d [\<lparr>status = st', date = d'\<rparr>] = (if d' = d \<and> st' = st then 1 else 0)"
  by (simp add: events_on_def)

lemma list_ex_events_on:
  "list_ex (\<lambda>l. date l = d \<and> status l = st) es = (0 < events_on st d es)"
  by (simp add: events_on_def list_ex_iff filter_empty_conv) 

lemma mark_present_again:
  "mark_attendance d i Present (mark_attendance d i Present lg) = mark_attendance d i Present lg"
  by (simp add: mark_attendance_def entries_of_def)

lemma deduplicated_mark: "deduplicated lg \<Longrightarrow> deduplicated (mark_attendance d i st lg)"
  unfolding deduplicated_def
  apply (intro allI)
  subgoal for j d'
    apply (cases st)
    apply (auto simp: entries_of_mark events_on_append events_on_single list_ex_events_on)
    done
  done

lemma deduplicated_attribute_face:
  "deduplicated (snd (snd r)) \<Longrightarrow> deduplicated (snd (snd (attribute_face accepts today studs face r)))"
  by (cases r) (simp add: attribute_face_def deduplicated_mark split: option.splits)

lemma deduplicated_attribute_faces:
  "deduplicated (snd (snd r)) \<Longrightarrow>
   deduplicated (snd (snd (fold (attribute_face accepts today studs) faces r)))"
  by (induction faces arbitrary: r) (simp_all add: deduplicated_attribute_face)

lemma deduplicated_mark_absent:
  "deduplicated lg \<Longrightarrow> deduplicated (fold (mark_absent today present) studs lg)"
  by (induction studs arbitrary: lg) (simp_all add: mark_absent_def deduplicated_mark)

lemma deduplicated_take_attendance:
  assumes "deduplicated (attendance_log s)"
  shows "deduplicated (attendance_log (snd (take_attendance accepts today fr s)))"
proof (cases fr)
  case (Faces fs)
  obtain present absent lg where r:
    "fold (attribute_face accepts today (students s)) fs
       ([], map name (students s), attendance_log s) = (present, absent, lg)"
    by (metis prod_cases3)
  have "deduplicated lg"
    using deduplicated_attribute_faces [of "([], map name (students s), attendance_log s)"
        accepts today "students s" fs] assms r by simp
  then show ?thesis
    using Faces r assms by (simp add: take_attendance_def deduplicated_mark_absent)
qed (use assms in \<open>simp_all add: take_attendance_def\<close>)

lemma deduplicated_register:
  assumes "deduplicated (attendance_log s)"
  shows "deduplicated (attendance_log (snd (register_student req s)))"
proof -
  have "deduplicated ((attendance_log s)(i \<mapsto> []))" for i
    using assms by (simp add: deduplicated_def entries_of_def events_on_def)
  then show ?thesis
    using assms by (simp add: register_student_def Let_def split: extraction.splits)
qed

lemma deduplicated_handle:
  "deduplicated (attendance_log s) \<Longrightarrow> deduplicated (attendance_log (handle r s))"
  by (cases r) (simp_all add: deduplicated_register deduplicated_take_attendance)

lemma deduplicated_fold_handle:
  "deduplicated (attendance_log s) \<Longrightarrow> deduplicated (attendance_log (fold handle reqs s))"
  by (induction reqs arbitrary: s) (simp_all add: deduplicated_handle)

lemma deduplicated_serve: "deduplicated (attendance_log (serve reqs))"
  unfolding serve_def
  by (rule deduplicated_fold_handle)
     (simp add: initial_state_def deduplicated_def entries_of_def events_on_def)

lemma events_on_mark_present:
  "events_on Present d (entries_of (mark_attendance d i Present lg) i) =
     max 1 (events_on Present d (entries_of lg i))"
  by (auto simp: entries_of_mark events_on_append events_on_single list_ex_events_on)

text \<open>
  C1. In every state the service can reach, marking a student \<^verbatim>\<open>Present\<close> twice in a
  row on day \<open>d\<close> changes nothing the second time, and the student's event list then
  holds exactly one \<^verbatim>\<open>Present\<close> event for \<open>d\<close>.
\<close>

theorem mark_present_twice:
  "mark_attendance d i Present (mark_attendance d i Present (attendance_log (serve reqs))) =
     mark_attendance d i Present (attendance_log (serve reqs)) \<and>
   events_on Present d (entries_of
     (mark_attendance d i Present (mark_attendance d i Present (attendance_log (serve reqs)))) i) = 1"
proof -
  have "events_on Present d (entries_of (attendance_log (serve reqs)) i) \<le> 1"
    using deduplicated_serve [of reqs] by (simp add: deduplicated_def)
  then show ?thesis
    by (simp add: mark_present_again events_on_mark_present)
qed

lemma funpow_mark_absent:
  "entries_of ((mark_attendance d i Absent ^^ n) lg) j =
     (if j = i then entries_of lg i @ replicate n \<lparr>status = Absent, date = d\<rparr> else entries_of lg j)"
  by (induction n) (auto simp: entries_of_mark replicate_append_same)

lemma funpow_mark_present:
  "mark_attendance d i Present ((mark_attendance d i Present ^^ n) lg) =
     mark_attendance d i Present lg"
  by (induction n) (simp_all add: mark_present_again)

text \<open>
  C5. Every \<^verbatim>\<open>Absent\<close> call appends: \<open>n\<close> calls for one student and day add \<open>n\<close>
  \<^verbatim>\<open>Absent\<close> events at the end of the student's list and leave the \<^verbatim>\<open>Present\<close> events as
  they are, while any number of repeated \<^verbatim>\<open>Present\<close> calls has the effect of one.
\<close>

theorem mark_absent_accumulates:
  "entries_of ((mark_attendance d i Absent ^^ n) lg) i =
     entries_of lg i @ replicate n \<lparr>status = Absent, date = d\<rparr> \<and>
   events_on Absent d (entries_of ((mark_attendance d i Absent ^^ n) lg) i) =
     events_on Absent d (entries_of lg i) + n \<and>
   events_on Present d' (entries_of ((mark_attendance d i Absent ^^ n) lg) i) =
     events_on Present d' (entries_of lg i) \<and>
   (mark_attendance d i Present ^^ Suc n) lg = mark_attendance d i Present lg"
  by (simp add: funpow_mark_absent funpow_mark_present events_on_def)

section \<open>The matcher\<close>

lemma face_distance_single: "face_distance [a] [b] = \<bar>a - b\<bar>"
  by (simp add: face_distance_def)

lemma index_true_less: "True \<in> set bs \<Longrightarrow> index_true bs < length bs"
  by (induction bs) auto

lemma index_true_nth: "True \<in> set bs \<Longrightarrow> bs ! index_true bs"
  by (induction bs) auto

lemma index_true_first: "j < index_true bs \<Longrightarrow> \<not> bs ! j"
  by (induction bs arbitrary: j) (auto simp: nth_Cons' split: if_splits)

lemma find_index_true:
  "find P xs = (if True \<in> set (map P xs) then Some (xs ! index_true (map P xs)) else None)"
proof (induction xs)
  case Nil
  show ?case by simp
next
  case (Cons x xs)
  show ?case
  proof (cases "P x")
    case True
    then show ?thesis by simp
  next
    case False
    then have "(True \<in> set (map P (x # xs))) = (True \<in> set (map P xs))"
      by auto
    with False Cons show ?thesis by simp
  qed
qed

lemma match_face_find:
  "match_face accepts studs face = find (\<lambda>s. accepts (encoding s) face) studs"
  by (simp add: match_face_def compare_faces_def Let_def find_index_true comp_def)

lemma index_true_take: "list_all (\<lambda>b. \<not> b) (take (index_true bs) bs)"
  by (induction bs) auto

text \<open>
  C3, as the code has it. The student a face is attributed to is the first student, in
  roster order, whose encoding \<^verbatim>\<open>compare_faces\<close> accepts: every student before the
  chosen index is rejected, and nobody is chosen exactly when all are rejected. The
  distances of the accepted students play no part in the choice.
\<close>

theorem match_face_first:
  "match_face accepts studs face = find (\<lambda>s. accepts (encoding s) face) studs \<and>
   (case match_face accepts studs face of
      None \<Rightarrow> list_all (\<lambda>s. \<not> accepts (encoding s) face) studs
    | Some st \<Rightarrow>
        (let idx = index_true (compare_faces accepts (map encoding studs) face) in
         idx < length studs \<and> st = studs ! idx \<and> accepts (encoding st) face \<and>
         list_all (\<lambda>s. \<not> accepts (encoding s) face) (take idx studs)))"
proof (cases "True \<in> set (compare_faces accepts (map encoding studs) face)")
  case True
  let ?bs = "compare_faces accepts (map encoding studs) face"
  have len: "length ?bs = length studs"
    by (simp add: compare_faces_def)
  have lt: "index_true ?bs < length studs"
    using index_true_less [OF True] len by simp
  have acc: "accepts (encoding (studs ! index_true ?bs)) face"
    using index_true_nth [OF True] lt by (simp add: compare_faces_def)
  have "list_all (\<lambda>b. \<not> b) (take (index_true ?bs) ?bs)"
    by (rule index_true_take)
  then have none: "list_all (\<lambda>s. \<not> accepts (encoding s) face) (take (index_true ?bs) studs)"
    by (simp add: compare_faces_def take_map list_all_iff)
  have "match_face accepts studs face = Some (studs ! index_true ?bs)"
    using True by (simp add: match_face_def Let_def)
  with lt acc none show ?thesis
    by (simp add: match_face_find [symmetric] Let_def)
next
  case False
  then have "match_face accepts studs face = None"
    by (simp add: match_face_def Let_def)
  moreover from False have "list_all (\<lambda>s. \<not> accepts (encoding s) face) studs"
    by (auto simp: compare_faces_def list_all_iff)
  ultimately show ?thesis
    by (simp add: match_face_find [symmetric])
qed

lemma classroom_eq:
  "classroom =
     \<lparr>students =
        [\<lparr>student_id = 1, name = ''Alice'', photo = ''a.jpg'', encoding = [1/2]\<rparr>,
         \<lparr>student_id = 2, name = ''Bob'', photo = ''b.jpg'', encoding = [1/4]\<rparr>],
      attendance_log = [1 \<mapsto> [], 2 \<mapsto> []]\<rparr>"
  by (simp add: classroom_def serve_def enrol_def initial_state_def register_student_def
      falsy_def)

lemma namesakes_eq:
  "namesakes =
     \<lparr>students =
        [\<lparr>student_id = 1, name = ''Alice'', photo = ''a.jpg'', encoding = [1/2]\<rparr>,
         \<lparr>student_id = 2, name = ''Alice'', photo = ''c.jpg'', encoding = [10]\<rparr>],
      attendance_log = [1 \<mapsto> [], 2 \<mapsto> []]\<rparr>"
  by (simp add: namesakes_def serve_def enrol_def initial_state_def register_student_def
      falsy_def)


text \<open>
  C6. The answer is the error \<^verbatim>\<open>No students registered\<close> exactly when the roster is
  empty; on a non-empty roster a frame without faces is answered with an empty
  \<^verbatim>\<open>present_students\<close> and every name in \<^verbatim>\<open>absent_students\<close>.
\<close>

theorem take_attendance_empty_roster:
  "(fst (take_attendance accepts today fr s) = Inl NoStudentsRegistered) = (students s = []) \<and>
   (students s \<noteq> [] \<longrightarrow>
      fst (take_attendance accepts today (Faces []) s) = Inr ([], map name (students s)))"
  by (cases fr) (simp_all add: take_attendance_def split: prod.splits)


text \<open>
  C3 as stated fails: against the face \<open>[0]\<close> the second student of \<open>classroom\<close> is
  strictly closer than the first, both are within the tolerance 0.6 (under either
  comparison), and the first is chosen.
\<close>

theorem closest_not_selected:
  "match_face (closer_than (6/10)) (students classroom) [0] = Some (students classroom ! 0) \<and>
   match_face (no_farther_than (6/10)) (students classroom) [0] = Some (students classroom ! 0) \<and>
   face_distance (encoding (students classroom ! 1)) [0] <
     face_distance (encoding (students classroom ! 0)) [0] \<and>
   closer_than (6/10) (encoding (students classroom ! 1)) [0]"
  by (simp add: classroom_eq match_face_find closer_than_def no_farther_than_def
      face_distance_single)

text \<open>
  The matcher on \<open>classroom\<close>.
\<close>

theorem match_face_first_witness:
  "match_face (closer_than (6/10)) (students classroom) [0] =
     find (\<lambda>s. closer_than (6/10) (encoding s) [0]) (students classroom) \<and>
   match_face (closer_than (6/10)) (students classroom) [0] = Some (students classroom ! 0)"
  using match_face_first [of "closer_than (6/10)" "students classroom" "[0]"]
  by (simp add: classroom_eq closer_than_def face_distance_single)

text \<open>
  C4, on the roster \<open>namesakes\<close> of two registered students who share a name. A frame
  showing the first of them, and a frame showing both, are answered alike: the name is
  in \<^verbatim>\<open>present_students\<close> and in \<^verbatim>\<open>absent_students\<close>, so the two lists do not
  partition the roster. The first student is marked \<^verbatim>\<open>Present\<close>; the second one gets no
  event at all, neither when she is in the frame nor when she is one of the remaining
  students that the second loop is there to mark \<^verbatim>\<open>Absent\<close>. Both comparisons with the
  tolerance give the same answer.
\<close>

theorem namesakes_run:
  "fst (take_attendance (closer_than (6/10)) ''2024-03-01'' (Faces [[1/2]]) namesakes) =
     Inr ([''Alice''], [''Alice'']) \<and>
   fst (take_attendance (no_farther_than (6/10)) ''2024-03-01'' (Faces [[1/2]]) namesakes) =
     Inr ([''Alice''], [''Alice'']) \<and>
   fst (take_attendance (closer_than (6/10)) ''2024-03-01'' (Faces [[1/2], [10]]) namesakes) =
     Inr ([''Alice''], [''Alice'']) \<and>
   fst (take_attendance (no_farther_than (6/10)) ''2024-03-01'' (Faces [[1/2], [10]]) namesakes) =
     Inr ([''Alice''], [''Alice'']) \<and>
   set [''Alice''] \<inter> set [''Alice''] \<noteq> ({} :: string set) \<and>
   map student_id (students namesakes) = [1, 2] \<and>
   match_face (closer_than (6/10)) (students namesakes) [10] = Some (students namesakes ! 1) \<and>
   entries_of (attendance_log (snd (take_attendance (closer_than (6/10)) ''2024-03-01''
     (Faces [[1/2]]) namesakes))) 1 = [\<lparr>status = Present, date = ''2024-03-01''\<rparr>] \<and>
   entries_of (attendance_log (snd (take_attendance (closer_than (6/10)) ''2024-03-01''
     (Faces [[1/2]]) namesakes))) 2 = [] \<and>
   entries_of (attendance_log (snd (take_attendance (closer_than (6/10)) ''2024-03-01''
     (Faces [[1/2], [10]]) namesakes))) 1 = [\<lparr>status = Present, date = ''2024-03-01''\<rparr>] \<and>
   entries_of (attendance_log (snd (take_attendance (closer_than (6/10)) ''2024-03-01''
     (Faces [[1/2], [10]]) namesakes))) 2 = []"
  by (simp add: namesakes_eq take_attendance_def attribute_face_def match_face_find
      closer_than_def no_farther_than_def face_distance_single mark_absent_def
      mark_attendance_def entries_of_def)

text \<open>
  The empty module state and \<open>classroom\<close>, each with a frame without faces.
\<close>

theorem take_attendance_empty_roster_witness:
  "fst (take_attendance (closer_than (6/10)) ''2024-03-01'' (Faces []) initial_state) =
     Inl NoStudentsRegistered \<and>
   students classroom \<noteq> [] \<and>
   fst (take_attendance (closer_than (6/10)) ''2024-03-01'' (Faces []) classroom) =
     Inr ([], [''Alice'', ''Bob''])"
  using take_attendance_empty_roster [of "closer_than (6/10)" "''2024-03-01''" "Faces []" initial_state]
    take_attendance_empty_roster [of "closer_than (6/10)" "''2024-03-01''" "Faces []" classroom]
  by (simp add: classroom_eq initial_state_def)

section \<open>Summary and buckets\<close>

lemma sum_ones: "sum_list (map (\<lambda>l. Suc 0) xs) = length xs"
  by (induction xs) simp_all

lemma status_split:
  "length (filter (\<lambda>l. status l = Present) logs) + length (filter (\<lambda>l. status l = Absent) logs) =
     length logs"
proof (induction logs)
  case Nil
  show ?case by simp
next
  case (Cons l logs)
  then show ?case by (cases "status l") simp_all
qed

text \<open>
  C7. The report's figures: \<^verbatim>\<open>total_present\<close> and \<^verbatim>\<open>total_absent\<close> are the numbers of
  \<^verbatim>\<open>Present\<close> and \<^verbatim>\<open>Absent\<close> events, which add up to the number of events, and the
  percentage is \<^verbatim>\<open>total_present / max(len(logs), 1) * 100\<close>. The division never raises;
  the empty history gives 0, 0 and 0.
\<close>

theorem summary_figures:
  "summary logs =
     Inr (length (filter (\<lambda>l. status l = Present) logs),
          length (filter (\<lambda>l. status l = Absent) logs),
          real (length (filter (\<lambda>l. status l = Present) logs)) / real (max (length logs) 1) * 100) \<and>
   length (filter (\<lambda>l. status l = Present) logs) + length (filter (\<lambda>l. status l = Absent) logs) =
     length logs \<and>
   summary [] = Inr (0, 0, 0)"
  by (simp add: summary_def truediv_def sum_ones status_split Let_def)

text \<open>
  Three \<^verbatim>\<open>Present\<close> events out of four give 75 percent.
\<close>

lemma three_of_four:
  "summary [\<lparr>status = Present, date = ''2024-01-01''\<rparr>, \<lparr>status = Absent, date = ''2024-01-02''\<rparr>,
     \<lparr>status = Present, date = ''2024-01-03''\<rparr>, \<lparr>status = Present, date = ''2024-01-04''\<rparr>] =
   Inr (3, 1, 75)"
  by (simp add: summary_def truediv_def)

lemma counts_of_tally:
  "counts_of (tally k st ds) k' =
     (if k' = k then increment st (counts_of ds k) else counts_of ds k')"
  by (simp add: tally_def counts_of_def update_conv')

lemma keys_tally: "set (map fst (tally k st ds)) = insert k (set (map fst ds))"
  by (simp add: tally_def dom_update)

lemma distinct_tally: "distinct (map fst ds) \<Longrightarrow> distinct (map fst (tally k st ds))"
  by (simp add: tally_def distinct_update)

lemma increment_counts:
  "increment st c = (fst c + (if st = Present then 1 else 0), snd c + (if st = Absent then 1 else 0))"
  by (cases st; cases c) simp_all

lemma fold_tally_counts:
  "counts_of (fold (\<lambda>l ds. tally (key (date l)) (status l) ds) history ds) k =
     (fst (counts_of ds k) + bucket_count key Present k history,
      snd (counts_of ds k) + bucket_count key Absent k history)"
proof (induction history arbitrary: ds)
  case Nil
  show ?case by (simp add: bucket_count_def)
next
  case (Cons l history)
  show ?case
    by (simp add: Cons.IH counts_of_tally increment_counts bucket_count_def)
qed

lemma fold_tally_keys:
  "set (map fst (fold (\<lambda>l ds. tally (key (date l)) (status l) ds) history ds)) =
     set (map fst ds) \<union> (\<lambda>l. key (date l)) ` set history"
  by (induction history arbitrary: ds) (simp_all add: keys_tally del: set_map)

lemma fold_tally_distinct:
  "distinct (map fst ds) \<Longrightarrow>
   distinct (map fst (fold (\<lambda>l ds. tally (key (date l)) (status l) ds) history ds))"
  by (induction history arbitrary: ds) (simp_all add: distinct_tally)

lemma series_eq:
  "series key history =
     (sorted_list_of_set ((\<lambda>l. key (date l)) ` set history),
      map (\<lambda>m. bucket_count key Present m history)
        (sorted_list_of_set ((\<lambda>l. key (date l)) ` set history)),
      map (\<lambda>m. bucket_count key Absent m history)
        (sorted_list_of_set ((\<lambda>l. key (date l)) ` set history)))"
proof -
  let ?ds = "fold (\<lambda>l ds. tally (key (date l)) (status l) ds) history []"
  have d: "distinct (map fst ?ds)"
    by (rule fold_tally_distinct) simp
  have k: "set (map fst ?ds) = (\<lambda>l. key (date l)) ` set history"
    using fold_tally_keys [of key history "[]"] by simp
  have "sort (map fst ?ds) = sorted_list_of_set (set (map fst ?ds))"
    using d by (simp only: sorted_list_of_set_sort_remdups distinct_remdups_id)
  then have labels: "sort (map fst ?ds) = sorted_list_of_set ((\<lambda>l. key (date l)) ` set history)"
    by (simp only: k)
  have c: "counts_of ?ds m = (bucket_count key Present m history, bucket_count key Absent m history)" for m
    using fold_tally_counts [of key history "[]" m] by (simp add: counts_of_def)
  show ?thesis
    by (simp add: series_def Let_def labels c)
qed

text \<open>
  C8. The monthly view: the labels are the distinct seven-character prefixes of the
  dates in ascending lexicographic order, and the two count lists give, label by label,
  the number of \<^verbatim>\<open>Present\<close> and of \<^verbatim>\<open>Absent\<close> events whose date starts with the label.
\<close>

theorem monthly_buckets:
  "monthly history =
     (sorted_list_of_set ((\<lambda>l. take 7 (date l)) ` set history),
      map (\<lambda>m. bucket_count (take 7) Present m history)
        (sorted_list_of_set ((\<lambda>l. take 7 (date l)) ` set history)),
      map (\<lambda>m. bucket_count (take 7) Absent m history)
        (sorted_list_of_set ((\<lambda>l. take 7 (date l)) ` set history))) \<and>
   sorted_wrt (<) (fst (monthly history))"
proof -
  have m: "month = take 7"
    by (rule ext) (simp add: month_def)
  show ?thesis
    by (simp add: monthly_def series_eq m strict_sorted_iff)
qed

section \<open>Registration and ids\<close>

text \<open>
  C9. Registration answers \<^verbatim>\<open>No face detected\<close> exactly when name and photo are given
  and the extraction returns \<^verbatim>\<open>None\<close>, and then \<^verbatim>\<open>students\<close> and \<^verbatim>\<open>attendance_log\<close>
  are as before the call.
\<close>

theorem register_no_face:
  "(fst (register_student req s) = Inl NoFaceDetected) =
     (\<not> falsy (student_name req) \<and> \<not> falsy (student_photo req) \<and> extracted req = NoFace) \<and>
   (fst (register_student req s) = Inl NoFaceDetected \<longrightarrow> snd (register_student req s) = s)"
  by (simp add: register_student_def Let_def split: extraction.splits)

text \<open>
  A photo without a face, sent to \<open>classroom\<close>.
\<close>

theorem register_no_face_witness:
  "register_student
     \<lparr>student_name = Some ''Carol'', student_photo = Some ''wall.jpg'', filename = ''u.jpg'',
      extracted = NoFace\<rparr> classroom = (Inl NoFaceDetected, classroom)"
  using register_no_face [of
      "\<lparr>student_name = Some ''Carol'', student_photo = Some ''wall.jpg'', filename = ''u.jpg'',
        extracted = NoFace\<rparr>" classroom]
  by (simp add: falsy_def prod_eq_iff)
















section \<open>Sample runs\<close>

text \<open>
  Two days of January fall into one bucket, and the labels come out in ascending order.
\<close>

lemma monthly_rollup:
  "monthly [\<lparr>status = Present, date = ''2024-02-01''\<rparr>, \<lparr>status = Present, date = ''2024-01-01''\<rparr>,
     \<lparr>status = Absent, date = ''2024-01-15''\<rparr>] =
   ([''2024-01'', ''2024-02''], [1, 1], [1, 0])"
  by code_simp

text \<open>
  The daily view has one bucket per date.
\<close>

lemma daily_example:
  "daily [\<lparr>status = Present, date = ''2024-01-01''\<rparr>, \<lparr>status = Absent, date = ''2024-01-02''\<rparr>] =
   ([''2024-01-01'', ''2024-01-02''], [1, 0], [0, 1])"
  by code_simp

text \<open>
  One run on \<open>classroom\<close> with the face of the first student: she is marked
  \<^verbatim>\<open>Present\<close>, the other student \<^verbatim>\<open>Absent\<close>.
\<close>

lemma run_example:
  "entries_of (attendance_log (snd (take_attendance (closer_than (6/10)) ''2024-03-01'' (Faces [[1/2]]) classroom))) 1 = [\<lparr>status = Present, date = ''2024-03-01''\<rparr>] \<and>
  entries_of (attendance_log (snd (take_attendance (closer_than (6/10)) ''2024-03-01'' (Faces [[1/2]]) classroom))) 2 = [\<lparr>status = Absent, date = ''2024-03-01''\<rparr>]"
  by (simp add: classroom_eq take_attendance_def attribute_face_def match_face_find
        closer_than_def face_distance_single mark_absent_def mark_attendance_def entries_of_def)

end
